theory Spec2Isabelle
  imports Main "HOL-Library.Multiset" "HOL-Library.Char_ord" "HOL-Library.List_Lexorder"
begin

section \<open>The appointments table\<close>

text \<open>
  The back end keeps every slot as one row of the SQLite table \<open>appointments\<close>
  (database/init.js):
  \<^verbatim>\<open>
  id TEXT PRIMARY KEY, patientId TEXT, doctorId TEXT NOT NULL, date TEXT NOT NULL,
  time TEXT NOT NULL,
  status TEXT DEFAULT 'available' CHECK (status IN ('available','booked','cancelled','completed')),
  notes TEXT, createdAt DATETIME, updatedAt DATETIME
  \<close>
  A nullable column is an \<open>option\<close>; the table is the list of its rows in rowid order.
  The columns \<open>id\<close> and \<open>notes\<close> are called \<open>appt_id\<close> and \<open>appt_notes\<close> here, since
  \<open>id\<close> is the identity of HOL and \<open>notes\<close> a keyword of Isabelle.
\<close>

datatype status = Available | Booked | Cancelled | Completed

record appointment =
  appt_id :: string
  patientId :: "string option"
  doctorId :: string
  date :: string
  time :: string
  status :: status
  appt_notes :: "string option"
  createdAt :: string
  updatedAt :: string

type_synonym store = "appointment list"

text \<open>The primary key: no two rows share an id.\<close>

definition primary_key :: "store \<Rightarrow> bool" where
  "primary_key s = distinct (map appt_id s)"

section \<open>The environment of a request\<close>

text \<open>
  The handlers read the clock (\<open>new Date()\<close>) and parse the date strings of the request
  with \<open>new Date(date)\<close>. Both belong to the JavaScript runtime, so they are parameters:
  \<open>parseDate\<close> gives the time value of a date string (\<open>None\<close> for an Invalid Date, whose
  time value is NaN), \<open>today\<close> is the time value of local midnight
  (\<open>today.setHours(0, 0, 0, 0)\<close>) and \<open>nowISO n\<close> is the \<open>n\<close>-th
  \<open>new Date().toISOString()\<close> the handler evaluates.
\<close>

record env =
  parseDate :: "string \<Rightarrow> int option"
  today :: int
  nowISO :: "nat \<Rightarrow> string"

text \<open>\<open>new Date(d) < today\<close>: a comparison with NaN is false.\<close>

definition is_past :: "env \<Rightarrow> string \<Rightarrow> bool" where
  "is_past e d = (case parseDate e d of None \<Rightarrow> False | Some t \<Rightarrow> t < today e)"

text \<open>
  Request fields are strings or missing (\<open>undefined\<close>). \<open>!v\<close> holds for a missing
  field and for the empty string; \<open>v || w\<close> is \<open>w\<close> in exactly these cases.
\<close>

definition falsy :: "string option \<Rightarrow> bool" where
  "falsy v = (v = None \<or> v = Some [])"

definition or_null :: "string option \<Rightarrow> string option" where
  "or_null v = (if falsy v then None else v)"

definition or_else :: "string option \<Rightarrow> string \<Rightarrow> string" where
  "or_else v w = (case v of None \<Rightarrow> w | Some x \<Rightarrow> if x = [] then w else x)"

definition or_opt :: "string option \<Rightarrow> string option \<Rightarrow> string option" where
  "or_opt v w = (if falsy v then w else v)"

text \<open>SQL's \<open>column = ?\<close> on a nullable column: never true when the parameter is NULL.\<close>

definition sql_eq :: "string option \<Rightarrow> string option \<Rightarrow> bool" where
  "sql_eq c v = (case v of None \<Rightarrow> False | Some x \<Rightarrow> c = Some x)"

section \<open>Responses\<close>

text \<open>
  A response is the HTTP status with the JSON body. The rows of
  \<open>GET /slots/available\<close> carry the five selected columns.
\<close>

record slot_row =
  row_id :: string
  row_doctorId :: string
  row_date :: string
  row_time :: string
  row_status :: status

datatype body =
    ErrorBody string
  | BookedBody string "appointment option"
  | RescheduledBody string string
  | MessageBody string
  | RowsBody "slot_row list"

type_synonym response = "nat \<times> body"

section \<open>Handlers as chains of database callbacks\<close>

text \<open>
  Every handler is a chain of \<open>db.get\<close>, \<open>db.run\<close> and \<open>db.all\<close> calls, each with
  a callback \<open>(err, result) => ...\<close> that either answers the request or issues the next
  call. A handler is therefore a tree: \<open>Done r\<close> answers with \<open>r\<close>, and each
  database call holds its query and its callback, whose first argument says whether
  the call failed (\<open>err\<close>).
\<close>

datatype prog =
    Done response
  | DbGet "appointment \<Rightarrow> bool" "bool \<Rightarrow> appointment option \<Rightarrow> prog"
  | DbRun "store \<Rightarrow> store" "bool \<Rightarrow> prog"
  | DbAll "store \<Rightarrow> slot_row list" "bool \<Rightarrow> slot_row list \<Rightarrow> prog"

text \<open>
  \<open>db.get\<close> with a \<open>WHERE\<close> clause yields one matching row or \<open>undefined\<close>; where
  several rows match, SQLite does not say which one, and the model takes the first of
  the table (\<open>find\<close>). \<open>UPDATE ... WHERE id = ?\<close> rewrites every row with that id and
  no other.
\<close>

definition update_where_id :: "string \<Rightarrow> (appointment \<Rightarrow> appointment) \<Rightarrow> store \<Rightarrow> store" where
  "update_where_id i f s = map (\<lambda>r. if appt_id r = i then f r else r) s"

text \<open>
  One request running alone: \<open>exec p fs s\<close> runs the chain \<open>p\<close> on the table \<open>s\<close>.
  The list \<open>fs\<close> says which database calls fail, in the order they are issued (beyond
  its end none fails): the database may be busy, or a constraint of the schema, such
  as the foreign key from \<open>patientId\<close> to the table of patients, may reject a
  statement. A failed call leaves the table as it was.
\<close>

definition fails :: "bool list \<Rightarrow> bool" where
  "fails fs = (case fs of [] \<Rightarrow> False | f # _ \<Rightarrow> f)"

primrec exec :: "prog \<Rightarrow> bool list \<Rightarrow> store \<Rightarrow> response \<times> store" where
  "exec (Done r) fs s = (r, s)"
| "exec (DbGet q k) fs s =
     (if fails fs then exec (k True None) (tl fs) s
      else exec (k False (find q s)) (tl fs) s)"
| "exec (DbRun u k) fs s =
     (if fails fs then exec (k True) (tl fs) s
      else exec (k False) (tl fs) (u s))"
| "exec (DbAll q k) fs s =
     (if fails fs then exec (k True []) (tl fs) s
      else exec (k False (q s)) (tl fs) s)"

subsection \<open>\<open>GET /slots/available\<close>\<close>

definition to_row :: "appointment \<Rightarrow> slot_row" where
  "to_row r = \<lparr>row_id = appt_id r, row_doctorId = doctorId r, row_date = date r,
               row_time = time r, row_status = status r\<rparr>"

text \<open>
  \<^verbatim>\<open>SELECT id, doctorId, date, time, status FROM appointments
  WHERE doctorId = ? AND date = ? AND status = "available" ORDER BY time ASC\<close>
  The column \<open>time\<close> is text, so the order is the order of strings.
\<close>

definition available_query :: "string \<Rightarrow> string \<Rightarrow> store \<Rightarrow> slot_row list" where
  "available_query doctorId' date' s =
     map to_row (sort_key time
       (filter (\<lambda>r. doctorId r = doctorId' \<and> date r = date' \<and> status r = Available) s))"

definition list_available :: "env \<Rightarrow> string option \<Rightarrow> string option \<Rightarrow> prog" where
  "list_available e doctorId' date' =
     (case (doctorId', date') of
        (Some doctorId'', Some date'') \<Rightarrow>
          if doctorId'' = [] \<or> date'' = []
          then Done (400, ErrorBody ''Missing required query parameters: doctorId, date'')
          else if is_past e date''
          then Done (400, ErrorBody ''Cannot view slots for past dates'')
          else DbAll (available_query doctorId'' date'')
                 (\<lambda>err rows.
                    if err then Done (500, ErrorBody ''Failed to fetch available slots'')
                    else Done (200, RowsBody rows))
      | _ \<Rightarrow> Done (400, ErrorBody ''Missing required query parameters: doctorId, date''))"

subsection \<open>\<open>POST /\<close>: book an appointment\<close>

record booking_request =
  req_patientId :: "string option"
  req_doctorId :: "string option"
  req_date :: "string option"
  req_time :: "string option"
  req_notes :: "string option"

text \<open>
  \<^verbatim>\<open>UPDATE appointments SET patientId = ?, status = "booked", notes = ?, updatedAt = ?
  WHERE id = ?\<close>, the statement that books a slot, in the booking and in the
  rescheduling handler.
\<close>

definition set_booked ::
  "string option \<Rightarrow> string option \<Rightarrow> string \<Rightarrow> appointment \<Rightarrow> appointment" where
  "set_booked patientId' notes' now r =
     r\<lparr>patientId := patientId', status := Booked, appt_notes := notes', updatedAt := now\<rparr>"

text \<open>
  The last query of the handler joins the doctor's and the patient's columns to the
  booked row (\<open>LEFT JOIN\<close>, so the row is there with or without them); the tables
  \<open>patients\<close> and \<open>doctors\<close> are not modelled and the answer carries the row itself.
\<close>

definition book :: "env \<Rightarrow> booking_request \<Rightarrow> prog" where
  "book e req =
     (case (req_patientId req, req_doctorId req, req_date req, req_time req) of
        (Some patientId', Some doctorId', Some date', Some time') \<Rightarrow>
          if patientId' = [] \<or> doctorId' = [] \<or> date' = [] \<or> time' = []
          then Done (400, ErrorBody ''Missing required fields: patientId, doctorId, date, time'')
          else if is_past e date'
          then Done (400, ErrorBody ''Cannot book appointments in the past'')
          else
            DbGet (\<lambda>r. doctorId r = doctorId' \<and> date r = date' \<and> time r = time'
                        \<and> status r = Available)
              (\<lambda>err slot.
                 if err then Done (500, ErrorBody ''Failed to check slot availability'')
                 else case slot of
                   None \<Rightarrow> Done (400, ErrorBody ''Selected time slot is not available'')
                 | Some slot' \<Rightarrow>
                     DbGet (\<lambda>r. patientId r = Some patientId' \<and> date r = date'
                                 \<and> time r = time' \<and> status r = Booked)
                       (\<lambda>err existingAppointment.
                          if err then Done (500, ErrorBody ''Failed to check patient availability'')
                          else case existingAppointment of
                            Some _ \<Rightarrow>
                              Done (400, ErrorBody ''Patient already has an appointment at this time'')
                          | None \<Rightarrow>
                              DbRun (update_where_id (appt_id slot')
                                       (set_booked (Some patientId') (or_null (req_notes req))
                                          (nowISO e 0)))
                                (\<lambda>err.
                                   if err then Done (500, ErrorBody ''Failed to book appointment'')
                                   else
                                     DbGet (\<lambda>r. appt_id r = appt_id slot')
                                       (\<lambda>err appointment'.
                                          if err
                                          then Done (500, ErrorBody
                                            ''Appointment booked but failed to retrieve details'')
                                          else Done (201, BookedBody
                                            ''Appointment booked successfully'' appointment')))))
      | _ \<Rightarrow> Done (400, ErrorBody ''Missing required fields: patientId, doctorId, date, time''))"

subsection \<open>\<open>PUT /:id\<close>: reschedule an appointment\<close>

text \<open>
  The handler reads \<open>doctorId\<close>, \<open>date\<close>, \<open>time\<close> and \<open>notes\<close> from the body and
  nothing else; the other fields are those the front end sends with its updates.
\<close>

record update_request =
  upd_doctorId :: "string option"
  upd_date :: "string option"
  upd_time :: "string option"
  upd_notes :: "string option"
  upd_status :: "string option"
  upd_diagnosis :: "string option"
  upd_prescription :: "string option"

text \<open>
  \<^verbatim>\<open>UPDATE appointments SET patientId = NULL, status = "available", notes = NULL,
  updatedAt = ? WHERE id = ?\<close>
\<close>

definition set_free :: "string \<Rightarrow> appointment \<Rightarrow> appointment" where
  "set_free now r =
     r\<lparr>patientId := None, status := Available, appt_notes := None, updatedAt := now\<rparr>"

definition reschedule :: "env \<Rightarrow> string \<Rightarrow> update_request \<Rightarrow> prog" where
  "reschedule e id' req =
     DbGet (\<lambda>r. appt_id r = id')
       (\<lambda>err appointment'.
          if err then Done (500, ErrorBody ''Failed to fetch appointment'')
          else case appointment' of
            None \<Rightarrow> Done (404, ErrorBody ''Appointment not found'')
          | Some appointment \<Rightarrow>
              if status appointment \<noteq> Booked
              then Done (400, ErrorBody ''Only booked appointments can be rescheduled'')
              else if (case upd_date req of None \<Rightarrow> False
                       | Some date' \<Rightarrow> date' \<noteq> [] \<and> is_past e date')
              then Done (400, ErrorBody ''Cannot reschedule appointments to the past'')
              else
                DbGet (\<lambda>r. doctorId r = or_else (upd_doctorId req) (doctorId appointment)
                            \<and> date r = or_else (upd_date req) (date appointment)
                            \<and> time r = or_else (upd_time req) (time appointment)
                            \<and> status r = Available)
                  (\<lambda>err newSlot'.
                     if err then Done (500, ErrorBody ''Failed to check slot availability'')
                     else case newSlot' of
                       None \<Rightarrow> Done (400, ErrorBody ''New time slot is not available'')
                     | Some newSlot \<Rightarrow>
                         DbGet (\<lambda>r. sql_eq (patientId r) (patientId appointment)
                                     \<and> date r = or_else (upd_date req) (date appointment)
                                     \<and> time r = or_else (upd_time req) (time appointment)
                                     \<and> status r = Booked \<and> appt_id r \<noteq> id')
                           (\<lambda>err existingAppointment.
                              if err
                              then Done (500, ErrorBody ''Failed to check patient availability'')
                              else case existingAppointment of
                                Some _ \<Rightarrow> Done (400, ErrorBody
                                  ''Patient already has an appointment at this time'')
                              | None \<Rightarrow>
                                  DbRun (update_where_id id' (set_free (nowISO e 0)))
                                    (\<lambda>err.
                                       if err
                                       then Done (500, ErrorBody ''Failed to reschedule appointment'')
                                       else
                                         DbRun (update_where_id (appt_id newSlot)
                                                  (set_booked (patientId appointment)
                                                     (or_opt (upd_notes req) (appt_notes appointment))
                                                     (nowISO e 1)))
                                           (\<lambda>err.
                                              if err
                                              then Done (500, ErrorBody
                                                ''Failed to reschedule appointment'')
                                              else Done (200, RescheduledBody
                                                ''Appointment rescheduled successfully''
                                                (appt_id newSlot)))))))"

subsection \<open>\<open>PATCH /:id/cancel\<close>: cancel an appointment\<close>

text \<open>
  \<^verbatim>\<open>UPDATE appointments SET status = "cancelled", updatedAt = ? WHERE id = ?\<close>
\<close>

definition set_cancelled :: "string \<Rightarrow> appointment \<Rightarrow> appointment" where
  "set_cancelled now r = r\<lparr>status := Cancelled, updatedAt := now\<rparr>"

definition cancel :: "env \<Rightarrow> string \<Rightarrow> prog" where
  "cancel e id' =
     DbGet (\<lambda>r. appt_id r = id')
       (\<lambda>err appointment'.
          if err then Done (500, ErrorBody ''Failed to fetch appointment'')
          else case appointment' of
            None \<Rightarrow> Done (404, ErrorBody ''Appointment not found'')
          | Some appointment \<Rightarrow>
              if status appointment \<noteq> Booked
              then Done (400, ErrorBody ''Only booked appointments can be cancelled'')
              else if is_past e (date appointment)
              then Done (400, ErrorBody ''Cannot cancel past appointments'')
              else
                DbRun (update_where_id id' (set_cancelled (nowISO e 0)))
                  (\<lambda>err.
                     if err then Done (500, ErrorBody ''Failed to cancel appointment'')
                     else Done (200, MessageBody ''Appointment cancelled successfully'')))"

subsection \<open>The front end's \<open>completeAppointment\<close>\<close>

text \<open>
  \<open>AppointmentApiService.completeAppointment\<close> (services/appointmentApi.ts, under the
  comment "Mark appointment as completed") builds the update
  \<open>{status: AppointmentStatus.COMPLETED, diagnosis, prescription}\<close> and hands it to
  \<open>updateAppointment\<close>, which sends it with \<open>PUT /appointments/:id\<close>: the route of the
  rescheduling handler, the only \<open>PUT\<close> route of the back end. The value of the enum
  member is declared outside the sources at hand, so it is the parameter \<open>COMPLETED\<close>.
\<close>

definition updateAppointment :: "env \<Rightarrow> string \<Rightarrow> update_request \<Rightarrow> prog" where
  "updateAppointment e id' data = reschedule e id' data"

definition completeAppointment ::
  "string \<Rightarrow> env \<Rightarrow> string \<Rightarrow> string option \<Rightarrow> string option \<Rightarrow> prog" where
  "completeAppointment COMPLETED e id' diagnosis prescription =
     updateAppointment e id'
       \<lparr>upd_doctorId = None, upd_date = None, upd_time = None, upd_notes = None,
        upd_status = Some COMPLETED, upd_diagnosis = diagnosis,
        upd_prescription = prescription\<rparr>"

section \<open>Requests running at the same time\<close>

text \<open>
  The server is one process with one database handle. A database call is carried out
  as a whole, and its callback runs until it answers or issues the next call; between
  two calls of one request, calls of other requests may be carried out. \<open>step\<close> is
  one call of a request with its callback, and \<open>interleave\<close> runs two requests by a
  schedule that names, call after call, the request that moves (\<open>False\<close> the first,
  \<open>True\<close> the second). No call fails here.
\<close>

fun step :: "prog \<Rightarrow> store \<Rightarrow> prog \<times> store" where
  "step (Done r) s = (Done r, s)"
| "step (DbGet q k) s = (k False (find q s), s)"
| "step (DbRun u k) s = (k False, u s)"
| "step (DbAll q k) s = (k False (q s), s)"

fun interleave :: "bool list \<Rightarrow> prog \<Rightarrow> prog \<Rightarrow> store \<Rightarrow> prog \<times> prog \<times> store" where
  "interleave [] p q s = (p, q, s)"
| "interleave (False # sch) p q s = (case step p s of (p', s') \<Rightarrow> interleave sch p' q s')"
| "interleave (True # sch) p q s = (case step q s of (q', s') \<Rightarrow> interleave sch p q' s')"

section \<open>Properties of tables\<close>

text \<open>
  Every booked slot has a patient and no available slot has one. Nothing is asked of
  cancelled and completed slots.
\<close>

definition patients_consistent :: "store \<Rightarrow> bool" where
  "patients_consistent s =
     (\<forall>r \<in> set s. (status r = Booked \<longrightarrow> patientId r \<noteq> None)
                  \<and> (status r = Available \<longrightarrow> patientId r = None))"

text \<open>One row for each doctor, date and time, as the seeding of the table creates them.\<close>

definition one_row_per_slot :: "store \<Rightarrow> bool" where
  "one_row_per_slot s = distinct (map (\<lambda>r. (doctorId r, date r, time r)) s)"

section \<open>Example data\<close>

text \<open>
  A server whose local time is UTC, on 10 June 2025 at 08:00; the time values are those
  of \<open>new Date("2025-06-09")\<close>, \<open>new Date("2025-06-10")\<close> and \<open>new Date("2025-06-11")\<close>.
\<close>

definition clock0 :: env where
  "clock0 =
     \<lparr>parseDate = map_of [(''2025-06-09'', 1749427200000), (''2025-06-10'', 1749513600000),
                           (''2025-06-11'', 1749600000000)],
      today = 1749513600000,
      nowISO = (\<lambda>n. if n = 0 then ''2025-06-10T08:00:00.000Z''
                     else ''2025-06-10T08:00:00.001Z'')\<rparr>"

text \<open>
  A slot as the seeding inserts it
  (\<open>INSERT INTO appointments (id, patientId, doctorId, date, time, status)\<close>), here
  available; and the same slot once a patient holds it.
\<close>

definition slot :: "string \<Rightarrow> string \<Rightarrow> string \<Rightarrow> string \<Rightarrow> appointment" where
  "slot i d dt t =
     \<lparr>appt_id = i, patientId = None, doctorId = d, date = dt, time = t, status = Available,
      appt_notes = None, createdAt = ''2025-06-01 00:00:00'',
      updatedAt = ''2025-06-01 00:00:00''\<rparr>"

definition held :: "string \<Rightarrow> string option \<Rightarrow> appointment \<Rightarrow> appointment" where
  "held p n r = r\<lparr>patientId := Some p, status := Booked, appt_notes := n\<rparr>"

definition S1 :: appointment where
  "S1 = slot ''S1'' ''D1'' ''2025-06-10'' ''10:00''"

definition S2 :: appointment where
  "S2 = slot ''S2'' ''D1'' ''2025-06-11'' ''09:00''"

definition S3 :: appointment where
  "S3 = slot ''S3'' ''D2'' ''2025-06-10'' ''10:00''"

definition S0 :: appointment where
  "S0 = slot ''S0'' ''D1'' ''2025-06-09'' ''10:00''"

definition S4 :: appointment where
  "S4 = slot ''S4'' ''D1'' ''2025-06-10'' ''09:30''"

definition booking :: "string \<Rightarrow> appointment \<Rightarrow> string option \<Rightarrow> booking_request" where
  "booking p r n =
     \<lparr>req_patientId = Some p, req_doctorId = Some (doctorId r), req_date = Some (date r),
      req_time = Some (time r), req_notes = n\<rparr>"

definition move_to :: "appointment \<Rightarrow> string option \<Rightarrow> update_request" where
  "move_to r n =
     \<lparr>upd_doctorId = Some (doctorId r), upd_date = Some (date r), upd_time = Some (time r),
      upd_notes = n, upd_status = None, upd_diagnosis = None, upd_prescription = None\<rparr>"

section \<open>Lookups and updates by primary key\<close>

lemmas example_defs =
  clock0_def slot_def held_def S0_def S1_def S2_def S3_def S4_def booking_def move_to_def

lemma find_SomeD: "find P xs = Some x \<Longrightarrow> P x \<and> x \<in> set xs"
  by (induction xs) (auto split: if_splits)

lemma key_unique:
  "primary_key s \<Longrightarrow> a \<in> set s \<Longrightarrow> r \<in> set s \<Longrightarrow> appt_id r = appt_id a \<Longrightarrow> r = a"
  unfolding primary_key_def by (metis distinct_map inj_onD)

lemma find_by_key:
  "primary_key s \<Longrightarrow> a \<in> set s \<Longrightarrow> find (\<lambda>r. appt_id r = appt_id a) s = Some a"
  unfolding primary_key_def
  by (induction s) (auto simp: image_iff)

lemma update_by_key:
  assumes "primary_key s" and "a \<in> set s"
  shows "update_where_id (appt_id a) f s = map (\<lambda>r. if r = a then f a else r) s"
  unfolding update_where_id_def
  by (rule map_cong) (use key_unique [OF assms] in auto)

lemma length_update_where_id: "length (update_where_id i f s) = length s"
  by (simp add: update_where_id_def)

lemma available_after_cancel:
  assumes "\<forall>r\<in>set s. appt_id r = i \<longrightarrow> status r \<noteq> Available"
  shows "filter (\<lambda>r. status r = Available) (update_where_id i (set_cancelled n) s)
       = filter (\<lambda>r. status r = Available) s"
  using assms unfolding update_where_id_def set_cancelled_def
  by (induction s) auto

section \<open>Booking\<close>

text \<open>What a request that was answered 201 has done, and which answers leave the table alone.\<close>

lemma book_created:
  assumes "exec (book e req) fs s = ((201, b), s')"
  shows "\<exists>p d dt t slot'.
           req_patientId req = Some p \<and> req_doctorId req = Some d \<and> req_date req = Some dt
         \<and> req_time req = Some t \<and> p \<noteq> [] \<and> \<not> is_past e dt
         \<and> find (\<lambda>r. doctorId r = d \<and> date r = dt \<and> time r = t \<and> status r = Available) s
             = Some slot'
         \<and> find (\<lambda>r. patientId r = Some p \<and> date r = dt \<and> time r = t \<and> status r = Booked) s
             = None
         \<and> s' = update_where_id (appt_id slot')
                  (set_booked (Some p) (or_null (req_notes req)) (nowISO e 0)) s
         \<and> b = BookedBody ''Appointment booked successfully''
                  (find (\<lambda>r. appt_id r = appt_id slot') s')"
  using assms
  by (auto simp: book_def split: option.splits if_splits)

lemma book_unchanged:
  assumes "exec (book e req) fs s = (r, s')"
    and "fst r \<noteq> 201" and "snd r \<noteq> ErrorBody ''Appointment booked but failed to retrieve details''"
  shows "s' = s"
  using assms
  by (auto simp: book_def split: option.splits if_splits)

lemma find_first: "\<exists>r\<in>set s. P r \<Longrightarrow> \<exists>x. find P s = Some x \<and> x \<in> set s \<and> P x"
  by (induction s) auto

lemma find_updated:
  assumes "primary_key s" and "a \<in> set s" and "appt_id (f a) = appt_id a"
  shows "find (\<lambda>r. appt_id r = appt_id a) (update_where_id (appt_id a) f s) = Some (f a)"
proof -
  have "update_where_id (appt_id a) f s = map (\<lambda>r. if r = a then f a else r) s"
    using assms by (simp add: update_by_key)
  moreover have "find (\<lambda>r. appt_id r = appt_id a) (map (\<lambda>r. if r = a then f a else r) s)
      = Some (f a)"
    using assms unfolding primary_key_def
    by (induction s) (auto simp: image_iff)
  ultimately show ?thesis by simp
qed

lemma slot_unique:
  "one_row_per_slot s \<Longrightarrow> a \<in> set s \<Longrightarrow> r \<in> set s \<Longrightarrow>
     doctorId r = doctorId a \<Longrightarrow> date r = date a \<Longrightarrow> time r = time a \<Longrightarrow> r = a"
  unfolding one_row_per_slot_def
  by (metis (mono_tags, lifting) distinct_map inj_onD)

lemma book_succeeds:
  assumes "req_patientId req = Some p" and "req_doctorId req = Some d"
    and "req_date req = Some dt" and "req_time req = Some t"
    and "p \<noteq> []" and "d \<noteq> []" and "dt \<noteq> []" and "t \<noteq> []"
    and "\<not> is_past e dt"
    and "\<exists>r\<in>set s. doctorId r = d \<and> date r = dt \<and> time r = t \<and> status r = Available"
    and "\<forall>x\<in>set s. \<not> (patientId x = Some p \<and> date x = dt \<and> time x = t \<and> status x = Booked)"
  shows "\<exists>b s'. exec (book e req) [] s = ((201, b), s')"
proof -
  obtain a where "find (\<lambda>r. doctorId r = d \<and> date r = dt \<and> time r = t \<and> status r = Available) s
      = Some a"
    using find_first [OF assms(10)] by blast
  moreover have "find (\<lambda>r. patientId r = Some p \<and> date r = dt \<and> time r = t \<and> status r = Booked) s
      = None"
    using assms(11) by (simp add: find_None_iff)
  ultimately show ?thesis
    using assms(1-9) by (simp add: book_def fails_def)
qed

text \<open>
  Claim C6, as stated, fails for one failure answer: when the last query of the
  handler, the one that reads the booked row back, errors, the request is answered
  500 "Appointment booked but failed to retrieve details" and the update is already
  written. The table is not unchanged: \<open>S1\<close> was available and is booked.
\<close>

theorem book_written_then_failed_counterexample:
  "exec (book clock0 (booking ''patA'' S1 (Some ''cough''))) [False, False, False, True] [S1] =
     ((500, ErrorBody ''Appointment booked but failed to retrieve details''),
      [set_booked (Some ''patA'') (Some ''cough'') ''2025-06-10T08:00:00.000Z'' S1])
   \<and> status (set_booked (Some ''patA'') (Some ''cough'') ''2025-06-10T08:00:00.000Z'' S1) = Booked
   \<and> status S1 = Available"
  by (simp add: example_defs book_def is_past_def fails_def update_where_id_def
      set_booked_def or_null_def falsy_def)

text \<open>
  Claim C6, amended. For a request with all four required fields, \<open>book\<close> answers 400
  "Cannot book appointments in the past" (PastDate) when the date is earlier than
  today; otherwise 400 "Selected time slot is not available" (SlotUnavailable) when no
  row of that doctor, date and time is available; otherwise 400 "Patient already has
  an appointment at this time" (DoubleBooking) when the patient holds a booked row at
  that date and time (a row other than the available one, since it is booked). The
  three reasons are three different messages, and the table is unchanged after each
  of them, and after every other failure answer except the 500 "Appointment booked but
  failed to retrieve details", which follows a booking already written.
\<close>

theorem book_failures:
  assumes "req_patientId req = Some p" and "req_doctorId req = Some d"
    and "req_date req = Some dt" and "req_time req = Some t"
    and "p \<noteq> []" and "d \<noteq> []" and "dt \<noteq> []" and "t \<noteq> []"
  shows "(is_past e dt \<longrightarrow>
            exec (book e req) fs s = ((400, ErrorBody ''Cannot book appointments in the past''), s))
       \<and> (\<not> is_past e dt
           \<and> (\<forall>r\<in>set s. doctorId r = d \<and> date r = dt \<and> time r = t \<longrightarrow> status r \<noteq> Available) \<longrightarrow>
            exec (book e req) [] s =
              ((400, ErrorBody ''Selected time slot is not available''), s))
       \<and> (\<not> is_past e dt
           \<and> (\<exists>r\<in>set s. doctorId r = d \<and> date r = dt \<and> time r = t \<and> status r = Available)
           \<and> (\<exists>x\<in>set s. patientId x = Some p \<and> date x = dt \<and> time x = t \<and> status x = Booked) \<longrightarrow>
            exec (book e req) [] s =
              ((400, ErrorBody ''Patient already has an appointment at this time''), s))
       \<and> distinct [''Cannot book appointments in the past'',
                    ''Selected time slot is not available'',
                    ''Patient already has an appointment at this time'']
       \<and> (\<forall>r s'. exec (book e req) fs s = (r, s') \<and> fst r \<noteq> 201
             \<and> snd r \<noteq> ErrorBody ''Appointment booked but failed to retrieve details'' \<longrightarrow> s' = s)"
proof (intro conjI impI allI)
  assume "is_past e dt"
  with assms show "exec (book e req) fs s =
      ((400, ErrorBody ''Cannot book appointments in the past''), s)"
    by (simp add: book_def)
next
  assume h: "\<not> is_past e dt
      \<and> (\<forall>r\<in>set s. doctorId r = d \<and> date r = dt \<and> time r = t \<longrightarrow> status r \<noteq> Available)"
  then have "find (\<lambda>r. doctorId r = d \<and> date r = dt \<and> time r = t \<and> status r = Available) s = None"
    by (auto simp: find_None_iff)
  with assms h show "exec (book e req) [] s =
      ((400, ErrorBody ''Selected time slot is not available''), s)"
    by (simp add: book_def fails_def)
next
  assume h: "\<not> is_past e dt
      \<and> (\<exists>r\<in>set s. doctorId r = d \<and> date r = dt \<and> time r = t \<and> status r = Available)
      \<and> (\<exists>x\<in>set s. patientId x = Some p \<and> date x = dt \<and> time x = t \<and> status x = Booked)"
  obtain a where a: "find (\<lambda>r. doctorId r = d \<and> date r = dt \<and> time r = t \<and> status r = Available) s
      = Some a"
    using h find_first [of s "\<lambda>r. doctorId r = d \<and> date r = dt \<and> time r = t \<and> status r = Available"]
    by blast
  obtain x where x: "find (\<lambda>r. patientId r = Some p \<and> date r = dt \<and> time r = t \<and> status r = Booked) s
      = Some x"
    using h find_first [of s "\<lambda>r. patientId r = Some p \<and> date r = dt \<and> time r = t \<and> status r = Booked"]
    by blast
  from assms h a x show "exec (book e req) [] s =
      ((400, ErrorBody ''Patient already has an appointment at this time''), s)"
    by (simp add: book_def fails_def)
next
  show "distinct [''Cannot book appointments in the past'',
                  ''Selected time slot is not available'',
                  ''Patient already has an appointment at this time'']"
    by simp
next
  fix r s'
  assume "exec (book e req) fs s = (r, s') \<and> fst r \<noteq> 201
      \<and> snd r \<noteq> ErrorBody ''Appointment booked but failed to retrieve details''"
  then show "s' = s" using book_unchanged by blast
qed

theorem book_failures_witness:
  "exec (book clock0 (booking ''patB'' S0 None)) [] [S0, S1] =
     ((400, ErrorBody ''Cannot book appointments in the past''), [S0, S1])
   \<and> exec (book clock0 (booking ''patB'' S1 None)) [] [held ''patA'' None S1] =
     ((400, ErrorBody ''Selected time slot is not available''), [held ''patA'' None S1])
   \<and> exec (book clock0 (booking ''patA'' S3 None)) [] [held ''patA'' None S1, S3] =
     ((400, ErrorBody ''Patient already has an appointment at this time''),
      [held ''patA'' None S1, S3])"
  using book_failures [of "booking ''patB'' S0 None" "''patB''" "''D1''" "''2025-06-09''" "''10:00''"
      clock0 "[]" "[S0, S1]"]
    book_failures [of "booking ''patB'' S1 None" "''patB''" "''D1''" "''2025-06-10''" "''10:00''"
      clock0 "[]" "[held ''patA'' None S1]"]
    book_failures [of "booking ''patA'' S3 None" "''patA''" "''D2''" "''2025-06-10''" "''10:00''"
      clock0 "[]" "[held ''patA'' None S1, S3]"]
  by (simp add: example_defs is_past_def)

text \<open>
  Claim C5, as stated, fails for empty notes: the handler stores \<open>notes || null\<close>, so
  a booking that supplies the empty string leaves \<open>NULL\<close> in the row, not the string
  supplied.
\<close>

theorem book_notes_counterexample:
  "exec (book clock0 (booking ''patB'' S1 (Some ''''))) [] [S1] =
     ((201, BookedBody ''Appointment booked successfully''
              (Some (S1\<lparr>patientId := Some ''patB'', status := Booked, appt_notes := None,
                        updatedAt := ''2025-06-10T08:00:00.000Z''\<rparr>))),
      [S1\<lparr>patientId := Some ''patB'', status := Booked, appt_notes := None,
          updatedAt := ''2025-06-10T08:00:00.000Z''\<rparr>])
   \<and> req_notes (booking ''patB'' S1 (Some '''')) = Some ''''
   \<and> appt_notes (S1\<lparr>patientId := Some ''patB'', status := Booked, appt_notes := None,
          updatedAt := ''2025-06-10T08:00:00.000Z''\<rparr>) = None"
  by (simp add: example_defs book_def is_past_def fails_def update_where_id_def
      set_booked_def or_null_def falsy_def)

text \<open>
  Claim C5, amended. When \<open>book\<close> answers 201 on a table with its primary key, there
  is an available row of the requested doctor, date and time, whose date is not
  earlier than today, such that the new table is the old one with that row alone
  rewritten: status booked, \<open>patientId\<close> the booking patient, \<open>notes\<close> the supplied
  notes (\<open>NULL\<close> when they are missing or empty) and \<open>updatedAt\<close> the current time.
  The answer carries the rewritten row.
\<close>

theorem book_success:
  assumes "primary_key s" and "exec (book e req) fs s = ((201, b), s')"
  shows "\<exists>slot' p.
           slot' \<in> set s \<and> status slot' = Available \<and> \<not> is_past e (date slot')
         \<and> req_patientId req = Some p \<and> req_doctorId req = Some (doctorId slot')
         \<and> req_date req = Some (date slot') \<and> req_time req = Some (time slot')
         \<and> s' = map (\<lambda>r. if r = slot'
                          then slot'\<lparr>patientId := Some p, status := Booked,
                                    appt_notes := or_null (req_notes req),
                                    updatedAt := nowISO e 0\<rparr>
                          else r) s
         \<and> b = BookedBody ''Appointment booked successfully''
                 (Some (slot'\<lparr>patientId := Some p, status := Booked,
                               appt_notes := or_null (req_notes req),
                               updatedAt := nowISO e 0\<rparr>))"
proof -
  from book_created [OF assms(2)] obtain p d dt t slot' where
    req: "req_patientId req = Some p" "req_doctorId req = Some d" "req_date req = Some dt"
      "req_time req = Some t" and past: "\<not> is_past e dt"
    and f: "find (\<lambda>r. doctorId r = d \<and> date r = dt \<and> time r = t \<and> status r = Available) s
        = Some slot'"
    and s': "s' = update_where_id (appt_id slot')
        (set_booked (Some p) (or_null (req_notes req)) (nowISO e 0)) s"
    and b: "b = BookedBody ''Appointment booked successfully''
        (find (\<lambda>r. appt_id r = appt_id slot') s')"
    by blast
  let ?f = "set_booked (Some p) (or_null (req_notes req)) (nowISO e 0)"
  from find_SomeD [OF f] have m: "slot' \<in> set s" "doctorId slot' = d" "date slot' = dt"
    "time slot' = t" "status slot' = Available" by auto
  have "s' = map (\<lambda>r. if r = slot' then ?f slot' else r) s"
    using s' update_by_key [OF assms(1) m(1)] by simp
  moreover have "find (\<lambda>r. appt_id r = appt_id slot') s' = Some (?f slot')"
    unfolding s' by (rule find_updated [OF assms(1) m(1)]) (simp add: set_booked_def)
  ultimately show ?thesis using req past m b
    by (intro exI [of _ slot'] exI [of _ p]) (simp add: set_booked_def)
qed

theorem book_success_witness:
  "primary_key [S1, S2]
   \<and> exec (book clock0 (booking ''patA'' S1 (Some ''cough''))) [] [S1, S2] =
       ((201, BookedBody ''Appointment booked successfully''
                (Some (S1\<lparr>patientId := Some ''patA'', status := Booked,
                          appt_notes := Some ''cough'',
                          updatedAt := ''2025-06-10T08:00:00.000Z''\<rparr>))),
        [S1\<lparr>patientId := Some ''patA'', status := Booked, appt_notes := Some ''cough'',
            updatedAt := ''2025-06-10T08:00:00.000Z''\<rparr>, S2])
   \<and> (\<exists>slot' p. slot' \<in> set [S1, S2] \<and> status slot' = Available
         \<and> req_patientId (booking ''patA'' S1 (Some ''cough'')) = Some p
         \<and> req_date (booking ''patA'' S1 (Some ''cough'')) = Some (date slot'))"
proof -
  have k: "primary_key [S1, S2]" by (simp add: primary_key_def example_defs)
  have x: "exec (book clock0 (booking ''patA'' S1 (Some ''cough''))) [] [S1, S2] =
       ((201, BookedBody ''Appointment booked successfully''
                (Some (S1\<lparr>patientId := Some ''patA'', status := Booked,
                          appt_notes := Some ''cough'',
                          updatedAt := ''2025-06-10T08:00:00.000Z''\<rparr>))),
        [S1\<lparr>patientId := Some ''patA'', status := Booked, appt_notes := Some ''cough'',
            updatedAt := ''2025-06-10T08:00:00.000Z''\<rparr>, S2])"
    by (simp add: example_defs book_def is_past_def fails_def update_where_id_def
        set_booked_def or_null_def falsy_def)
  from book_success [OF k x]
  have "\<exists>slot' p. slot' \<in> set [S1, S2] \<and> status slot' = Available
         \<and> req_patientId (booking ''patA'' S1 (Some ''cough'')) = Some p
         \<and> req_date (booking ''patA'' S1 (Some ''cough'')) = Some (date slot')"
    by (elim exE conjE) (intro exI conjI, assumption+)
  with k x show ?thesis by (intro conjI)
qed

text \<open>
  Claim C1, as stated, fails when the database calls of two bookings of the same
  available slot alternate: both requests find the slot available, both find the
  patient free, both updates are applied (the second to a slot that is booked by
  then) and both requests are answered 201. The slot ends with the second patient.
\<close>

theorem book_race_counterexample:
  "interleave [False, True, False, True, False, True, False, True]
     (book clock0 (booking ''patA'' S1 (Some ''cough'')))
     (book clock0 (booking ''patB'' S1 None)) [S1]
   = (Done (201, BookedBody ''Appointment booked successfully''
              (Some (set_booked (Some ''patB'') None ''2025-06-10T08:00:00.000Z'' S1))),
      Done (201, BookedBody ''Appointment booked successfully''
              (Some (set_booked (Some ''patB'') None ''2025-06-10T08:00:00.000Z'' S1))),
      [set_booked (Some ''patB'') None ''2025-06-10T08:00:00.000Z'' S1])"
  by (simp add: example_defs book_def is_past_def update_where_id_def set_booked_def
      or_null_def falsy_def)

text \<open>
  Claim C1, amended. Booking is a read followed by a write keyed by the slot id alone.
  On a table with one row per doctor, date and time, when a booking has been answered
  201, the new table is the old one with the update applied to the id of a row that
  was available, and a booking of the same doctor, date and time that starts after
  it is answered 400 "Selected time slot is not available" and changes nothing; the
  slot is in the table, booked, with the first request's patient.
\<close>

theorem book_one_after_the_other:
  assumes "one_row_per_slot s" and "exec (book e reqA) fs s = ((201, b), s')"
    and "req_doctorId reqB = req_doctorId reqA" and "req_date reqB = req_date reqA"
    and "req_time reqB = req_time reqA" and "req_patientId reqB = Some q" and "q \<noteq> []"
  shows "exec (book e reqB) [] s' =
           ((400, ErrorBody ''Selected time slot is not available''), s')
       \<and> (\<exists>slot'\<in>set s. status slot' = Available
             \<and> s' = update_where_id (appt_id slot')
                      (set_booked (req_patientId reqA) (or_null (req_notes reqA)) (nowISO e 0)) s)
       \<and> (\<exists>r\<in>set s'. Some (doctorId r) = req_doctorId reqA \<and> Some (date r) = req_date reqA
             \<and> Some (time r) = req_time reqA)
       \<and> (\<forall>r\<in>set s'. Some (doctorId r) = req_doctorId reqA \<and> Some (date r) = req_date reqA
             \<and> Some (time r) = req_time reqA \<longrightarrow>
             status r = Booked \<and> patientId r = req_patientId reqA)"
proof -
  from book_created [OF assms(2)] obtain p d dt t slot' where
    req: "req_patientId reqA = Some p" "req_doctorId reqA = Some d" "req_date reqA = Some dt"
      "req_time reqA = Some t" and past: "\<not> is_past e dt"
    and f: "find (\<lambda>r. doctorId r = d \<and> date r = dt \<and> time r = t \<and> status r = Available) s
        = Some slot'"
    and s': "s' = update_where_id (appt_id slot')
        (set_booked (Some p) (or_null (req_notes reqA)) (nowISO e 0)) s"
    by blast
  let ?f = "set_booked (Some p) (or_null (req_notes reqA)) (nowISO e 0)"
  from find_SomeD [OF f] have m: "slot' \<in> set s" "doctorId slot' = d" "date slot' = dt"
    "time slot' = t" "status slot' = Available" by auto
  have nonempty: "d \<noteq> []" "dt \<noteq> []" "t \<noteq> []"
    using assms(2) req by (auto simp: book_def split: if_splits)
  have rows: "status r = Booked \<and> patientId r = Some p"
    if "r \<in> set s'" "doctorId r = d" "date r = dt" "time r = t" for r
  proof -
    from that(1) obtain r0 where r0: "r0 \<in> set s"
      "r = (if appt_id r0 = appt_id slot' then ?f r0 else r0)"
      unfolding s' update_where_id_def by auto
    then have "doctorId r0 = doctorId r" "date r0 = date r" "time r0 = time r"
      by (auto simp: set_booked_def)
    with that m have "r0 = slot'" using slot_unique [OF assms(1) m(1) r0(1)] by simp
    with r0 show ?thesis by (simp add: set_booked_def)
  qed
  have "?f slot' \<in> set s'" unfolding s' update_where_id_def using m(1) by force
  then have ex: "\<exists>r\<in>set s'. Some (doctorId r) = req_doctorId reqA
      \<and> Some (date r) = req_date reqA \<and> Some (time r) = req_time reqA"
    using req m by (intro bexI [of _ "?f slot'"]) (simp_all add: set_booked_def)
  have "find (\<lambda>r. doctorId r = d \<and> date r = dt \<and> time r = t \<and> status r = Available) s' = None"
    using rows by (auto simp: find_None_iff)
  then have "exec (book e reqB) [] s' =
      ((400, ErrorBody ''Selected time slot is not available''), s')"
    using assms(3-7) req past nonempty by (simp add: book_def fails_def)
  moreover have "\<exists>slot'\<in>set s. status slot' = Available
      \<and> s' = update_where_id (appt_id slot')
               (set_booked (req_patientId reqA) (or_null (req_notes reqA)) (nowISO e 0)) s"
    using m s' req by auto
  ultimately show ?thesis using ex rows req by auto
qed

theorem book_one_after_the_other_witness:
  "one_row_per_slot [S1, S2]
   \<and> exec (book clock0 (booking ''patA'' S1 (Some ''cough''))) [] [S1, S2] =
       ((201, BookedBody ''Appointment booked successfully''
                (Some (set_booked (Some ''patA'') (Some ''cough'') ''2025-06-10T08:00:00.000Z'' S1))),
        [set_booked (Some ''patA'') (Some ''cough'') ''2025-06-10T08:00:00.000Z'' S1, S2])
   \<and> exec (book clock0 (booking ''patB'' S1 None)) []
         [set_booked (Some ''patA'') (Some ''cough'') ''2025-06-10T08:00:00.000Z'' S1, S2] =
       ((400, ErrorBody ''Selected time slot is not available''),
        [set_booked (Some ''patA'') (Some ''cough'') ''2025-06-10T08:00:00.000Z'' S1, S2])"
proof -
  have k: "one_row_per_slot [S1, S2]" by (simp add: one_row_per_slot_def example_defs)
  have x: "exec (book clock0 (booking ''patA'' S1 (Some ''cough''))) [] [S1, S2] =
       ((201, BookedBody ''Appointment booked successfully''
                (Some (set_booked (Some ''patA'') (Some ''cough'') ''2025-06-10T08:00:00.000Z'' S1))),
        [set_booked (Some ''patA'') (Some ''cough'') ''2025-06-10T08:00:00.000Z'' S1, S2])"
    by (simp add: example_defs book_def is_past_def fails_def update_where_id_def
        set_booked_def or_null_def falsy_def)
  have "exec (book clock0 (booking ''patB'' S1 None)) []
         [set_booked (Some ''patA'') (Some ''cough'') ''2025-06-10T08:00:00.000Z'' S1, S2] =
       ((400, ErrorBody ''Selected time slot is not available''),
        [set_booked (Some ''patA'') (Some ''cough'') ''2025-06-10T08:00:00.000Z'' S1, S2])"
    using book_one_after_the_other [OF k x, of "booking ''patB'' S1 None" "''patB''"]
    by (simp add: booking_def)
  with k x show ?thesis by (intro conjI)
qed

section \<open>Rescheduling\<close>

text \<open>
  What a request that was answered 200 has done; which answers leave the table alone;
  the two updates on a table with its primary key; and the tables each handler can
  leave behind.
\<close>

lemma reschedule_done:
  assumes "exec (reschedule e i req) fs s = ((200, b), s')"
  shows "\<exists>a n.
           find (\<lambda>r. appt_id r = i) s = Some a \<and> status a = Booked
         \<and> (falsy (upd_date req) \<or> \<not> is_past e (or_else (upd_date req) (date a)))
         \<and> find (\<lambda>r. doctorId r = or_else (upd_doctorId req) (doctorId a)
                     \<and> date r = or_else (upd_date req) (date a)
                     \<and> time r = or_else (upd_time req) (time a)
                     \<and> status r = Available) s = Some n
         \<and> find (\<lambda>r. sql_eq (patientId r) (patientId a)
                     \<and> date r = or_else (upd_date req) (date a)
                     \<and> time r = or_else (upd_time req) (time a)
                     \<and> status r = Booked \<and> appt_id r \<noteq> i) s = None
         \<and> s' = update_where_id (appt_id n)
                  (set_booked (patientId a) (or_opt (upd_notes req) (appt_notes a)) (nowISO e 1))
                  (update_where_id i (set_free (nowISO e 0)) s)
         \<and> b = RescheduledBody ''Appointment rescheduled successfully'' (appt_id n)"
  using assms
  by (auto simp: reschedule_def falsy_def or_else_def split: option.splits if_splits)

lemma tl4: "tl (tl (tl (tl fs))) = drop 4 fs"
  by (simp add: drop_Suc eval_nat_numeral)

lemma reschedule_not_done:
  assumes "exec (reschedule e i req) fs s = (r, s')" and "fst r \<noteq> 200"
    and "\<not> fails (drop 4 fs)"
  shows "s' = s"
  using assms unfolding tl4 [symmetric]
  by (auto simp: reschedule_def split: option.splits if_splits)

lemma update_twice:
  assumes "primary_key s" and "a \<in> set s" and "n \<in> set s" and "n \<noteq> a"
    and "appt_id (f a) = appt_id a"
  shows "update_where_id (appt_id n) g (update_where_id (appt_id a) f s) =
           map (\<lambda>r. if r = a then f a else if r = n then g n else r) s"
proof -
  have ids: "appt_id n \<noteq> appt_id a" using key_unique [OF assms(1,2,3)] assms(4) by blast
  have "r = a" if "r \<in> set s" "appt_id r = appt_id a" for r
    using key_unique [OF assms(1,2)] that by blast
  moreover have "r = n" if "r \<in> set s" "appt_id r = appt_id n" for r
    using key_unique [OF assms(1,3)] that by blast
  ultimately show ?thesis
    unfolding update_where_id_def map_map
    using ids assms(5) by (intro map_cong) auto
qed

lemma book_store:
  "snd (exec (book e req) fs s) = s
   \<or> (\<exists>i p n. snd (exec (book e req) fs s) =
         update_where_id i (set_booked (Some p) n (nowISO e 0)) s)"
  by (auto simp: book_def split: option.splits)

lemma reschedule_store:
  "snd (exec (reschedule e i req) fs s) = s
   \<or> snd (exec (reschedule e i req) fs s) = update_where_id i (set_free (nowISO e 0)) s
   \<or> (\<exists>a\<in>set s. \<exists>j n. status a = Booked
        \<and> snd (exec (reschedule e i req) fs s) =
            update_where_id j (set_booked (patientId a) n (nowISO e 1))
              (update_where_id i (set_free (nowISO e 0)) s))"
  by (auto simp: reschedule_def split: option.splits dest: find_SomeD)

lemma cancel_store:
  "snd (exec (cancel e i) fs s) = s
   \<or> snd (exec (cancel e i) fs s) = update_where_id i (set_cancelled (nowISO e 0)) s"
  by (auto simp: cancel_def split: option.splits)

lemma in_update_where_id:
  "r \<in> set (update_where_id j f s) \<Longrightarrow> r \<in> set s \<or> (\<exists>x\<in>set s. r = f x)"
  by (auto simp: update_where_id_def split: if_splits)

text \<open>
  Claim C7, as stated, fails when the request carries notes of its own: the target is
  booked with \<open>notes || appointment.notes\<close>, the notes of the request, and the notes
  of the moved appointment ("cough") are not carried over.
\<close>

theorem reschedule_notes_counterexample:
  "exec (reschedule clock0 ''S1'' (move_to S2 (Some ''follow-up''))) []
     [held ''patA'' (Some ''cough'') S1, S2] =
     ((200, RescheduledBody ''Appointment rescheduled successfully'' ''S2''),
      [S1\<lparr>updatedAt := ''2025-06-10T08:00:00.000Z''\<rparr>,
       S2\<lparr>patientId := Some ''patA'', status := Booked, appt_notes := Some ''follow-up'',
          updatedAt := ''2025-06-10T08:00:00.001Z''\<rparr>])
   \<and> appt_notes (held ''patA'' (Some ''cough'') S1) = Some ''cough''"
  by (simp add: example_defs reschedule_def is_past_def update_where_id_def set_booked_def
      set_free_def falsy_def or_else_def or_opt_def sql_eq_def fails_def)

text \<open>
  Claim C7, amended. On a table with its primary key, let \<open>src\<close> be the row of the
  appointment and let the target doctor, date and time be those of the request, each
  one defaulting to the appointment's own. If \<open>src\<close> is booked, the new date (if one is
  given) is not earlier than today, some row of the target doctor, date and time is
  available, and the patient holds no booked row at the target date and time other
  than \<open>src\<close> itself (the check leaves the moved slot out), then the request, with no
  database call failing, is answered 200. And whenever the request is answered 200,
  \<open>src\<close> was booked, the patient held no other booked row at the target date and time,
  the answer names an available target row, and the new table is the old one with two
  rows rewritten: \<open>src\<close> is available with \<open>patientId\<close> and notes cleared, and the target
  is booked with the patient of \<open>src\<close> and with the notes of \<open>src\<close>, unless the request
  supplies notes that are not empty, which then replace them.
\<close>

theorem reschedule_success:
  assumes "primary_key s" and "src \<in> set s" and "appt_id src = i"
    and "d = or_else (upd_doctorId req) (doctorId src)"
    and "dt = or_else (upd_date req) (date src)"
    and "t = or_else (upd_time req) (time src)"
  shows "(status src = Booked \<and> (falsy (upd_date req) \<or> \<not> is_past e dt)
          \<and> (\<exists>n\<in>set s. doctorId n = d \<and> date n = dt \<and> time n = t \<and> status n = Available)
          \<and> (\<forall>x\<in>set s. sql_eq (patientId x) (patientId src) \<and> date x = dt \<and> time x = t
                 \<and> status x = Booked \<longrightarrow> x = src)
          \<longrightarrow> fst (fst (exec (reschedule e i req) [] s)) = 200)
       \<and> (\<forall>fs b s'. exec (reschedule e i req) fs s = ((200, b), s') \<longrightarrow>
            status src = Booked
          \<and> (\<forall>x\<in>set s. sql_eq (patientId x) (patientId src) \<and> date x = dt \<and> time x = t
                 \<and> status x = Booked \<longrightarrow> x = src)
          \<and> (\<exists>tgt\<in>set s. doctorId tgt = d \<and> date tgt = dt \<and> time tgt = t
                 \<and> status tgt = Available
                 \<and> b = RescheduledBody ''Appointment rescheduled successfully'' (appt_id tgt)
                 \<and> s' = map (\<lambda>r. if r = src
                                  then src\<lparr>patientId := None, status := Available,
                                           appt_notes := None, updatedAt := nowISO e 0\<rparr>
                                  else if r = tgt
                                  then tgt\<lparr>patientId := patientId src, status := Booked,
                                           appt_notes := or_opt (upd_notes req) (appt_notes src),
                                           updatedAt := nowISO e 1\<rparr>
                                  else r) s))"
proof (intro conjI impI allI)
  let ?avail = "\<lambda>r. doctorId r = d \<and> date r = dt \<and> time r = t \<and> status r = Available"
  let ?clash = "\<lambda>r. sql_eq (patientId r) (patientId src) \<and> date r = dt \<and> time r = t
      \<and> status r = Booked \<and> appt_id r \<noteq> i"
  have a: "find (\<lambda>r. appt_id r = i) s = Some src"
    using find_by_key [OF assms(1,2)] assms(3) by simp
  {
    assume h: "status src = Booked \<and> (falsy (upd_date req) \<or> \<not> is_past e dt)
        \<and> (\<exists>n\<in>set s. ?avail n)
        \<and> (\<forall>x\<in>set s. sql_eq (patientId x) (patientId src) \<and> date x = dt \<and> time x = t
               \<and> status x = Booked \<longrightarrow> x = src)"
    then obtain tgt where tgt: "find ?avail s = Some tgt"
      using find_first [of s ?avail] by blast
    have c: "find ?clash s = None"
      using h assms(3) by (auto simp: find_None_iff)
    have past: "\<not> (case upd_date req of None \<Rightarrow> False | Some x \<Rightarrow> x \<noteq> [] \<and> is_past e x)"
      using h assms(5) by (auto simp: falsy_def or_else_def split: option.splits)
    show "fst (fst (exec (reschedule e i req) [] s)) = 200"
      using a tgt c past h assms(4-6) by (simp add: reschedule_def fails_def)
  }
  fix fs b s'
  assume x: "exec (reschedule e i req) fs s = ((200, b), s')"
  from reschedule_done [OF x] a assms(4-6) obtain n where
    bk: "status src = Booked"
    and n: "find ?avail s = Some n"
    and c: "find ?clash s = None"
    and s': "s' = update_where_id (appt_id n)
        (set_booked (patientId src) (or_opt (upd_notes req) (appt_notes src)) (nowISO e 1))
        (update_where_id i (set_free (nowISO e 0)) s)"
    and b: "b = RescheduledBody ''Appointment rescheduled successfully'' (appt_id n)"
    by auto
  show "status src = Booked" by (rule bk)
  show "\<forall>x\<in>set s. sql_eq (patientId x) (patientId src) \<and> date x = dt \<and> time x = t
      \<and> status x = Booked \<longrightarrow> x = src"
  proof (intro ballI impI)
    fix x assume xs: "x \<in> set s" and xc: "sql_eq (patientId x) (patientId src) \<and> date x = dt
        \<and> time x = t \<and> status x = Booked"
    from c xs have "\<not> ?clash x" by (simp add: find_None_iff)
    with xc have "appt_id x = appt_id src" using assms(3) by simp
    then show "x = src" using key_unique [OF assms(1,2) xs] by simp
  qed
  from find_SomeD [OF n] have m: "n \<in> set s" "?avail n" by auto
  have ne: "n \<noteq> src" using m(2) bk by auto
  have "s' = map (\<lambda>r. if r = src then set_free (nowISO e 0) src
                else if r = n
                then set_booked (patientId src) (or_opt (upd_notes req) (appt_notes src))
                       (nowISO e 1) n
                else r) s"
    unfolding s'
    using update_twice [OF assms(1,2) m(1) ne, of "set_free (nowISO e 0)"] assms(3)
    by (simp add: set_free_def)
  then have "s' = map (\<lambda>r. if r = src
                         then src\<lparr>patientId := None, status := Available,
                                  appt_notes := None, updatedAt := nowISO e 0\<rparr>
                         else if r = n
                         then n\<lparr>patientId := patientId src, status := Booked,
                                appt_notes := or_opt (upd_notes req) (appt_notes src),
                                updatedAt := nowISO e 1\<rparr>
                         else r) s"
    by (simp add: set_free_def set_booked_def)
  with m b show "\<exists>tgt\<in>set s. doctorId tgt = d \<and> date tgt = dt \<and> time tgt = t
      \<and> status tgt = Available
      \<and> b = RescheduledBody ''Appointment rescheduled successfully'' (appt_id tgt)
      \<and> s' = map (\<lambda>r. if r = src
                       then src\<lparr>patientId := None, status := Available,
                                appt_notes := None, updatedAt := nowISO e 0\<rparr>
                       else if r = tgt
                       then tgt\<lparr>patientId := patientId src, status := Booked,
                                appt_notes := or_opt (upd_notes req) (appt_notes src),
                                updatedAt := nowISO e 1\<rparr>
                       else r) s"
    by (intro bexI [of _ n]) simp_all
qed

theorem reschedule_success_witness:
  "exec (reschedule clock0 ''S1'' (move_to S3 None)) [] [held ''patA'' (Some ''cough'') S1, S3] =
     ((200, RescheduledBody ''Appointment rescheduled successfully'' ''S3''),
      [S1\<lparr>updatedAt := ''2025-06-10T08:00:00.000Z''\<rparr>,
       S3\<lparr>patientId := Some ''patA'', status := Booked, appt_notes := Some ''cough'',
          updatedAt := ''2025-06-10T08:00:00.001Z''\<rparr>])"
proof -
  let ?src = "held ''patA'' (Some ''cough'') S1"
  let ?s = "[?src, S3]"
  let ?x = "exec (reschedule clock0 ''S1'' (move_to S3 None)) [] ?s"
  have h1: "primary_key ?s" by (simp add: example_defs primary_key_def)
  have h2: "?src \<in> set ?s" by simp
  have h3: "appt_id ?src = ''S1''" and h4: "status ?src = Booked"
    by (simp_all add: example_defs)
  have h5: "''D2'' = or_else (upd_doctorId (move_to S3 None)) (doctorId ?src)"
    and h6: "''2025-06-10'' = or_else (upd_date (move_to S3 None)) (date ?src)"
    and h7: "''10:00'' = or_else (upd_time (move_to S3 None)) (time ?src)"
    by (simp_all add: example_defs or_else_def)
  have h8: "falsy (upd_date (move_to S3 None)) \<or> \<not> is_past clock0 ''2025-06-10''"
    by (simp add: clock0_def is_past_def)
  have h9: "\<exists>n\<in>set ?s. doctorId n = ''D2'' \<and> date n = ''2025-06-10'' \<and> time n = ''10:00''
      \<and> status n = Available"
    by (simp add: example_defs)
  have h10: "\<forall>x\<in>set ?s. sql_eq (patientId x) (patientId ?src) \<and> date x = ''2025-06-10''
      \<and> time x = ''10:00'' \<and> status x = Booked \<longrightarrow> x = ?src"
    by (simp add: example_defs)
  note main = reschedule_success [OF h1 h2 h3 h5 h6 h7, of clock0]
  from main h4 h8 h9 h10 have "fst (fst ?x) = 200" by blast
  then obtain b s' where x: "?x = ((200, b), s')" by (cases ?x) auto
  with main obtain tgt where
    t: "tgt \<in> set ?s" "status tgt = Available"
    and b: "b = RescheduledBody ''Appointment rescheduled successfully'' (appt_id tgt)"
    and s': "s' = map (\<lambda>r. if r = ?src
                 then ?src\<lparr>patientId := None, status := Available, appt_notes := None,
                           updatedAt := nowISO clock0 0\<rparr>
                 else if r = tgt
                 then tgt\<lparr>patientId := patientId ?src, status := Booked,
                          appt_notes := or_opt (upd_notes (move_to S3 None)) (appt_notes ?src),
                          updatedAt := nowISO clock0 1\<rparr>
                 else r) ?s"
    by blast
  from t h4 have "tgt = S3" by auto
  with x b s' show ?thesis
    by (simp add: example_defs or_opt_def falsy_def)
qed

text \<open>
  Claim C2, as stated, fails: the two updates are two database calls and no
  transaction holds them together. When the second one errors, the request is
  answered 500 and the first one stays: the source slot \<open>S1\<close> is released and the
  target \<open>S2\<close> was never claimed.
\<close>

theorem reschedule_half_done_counterexample:
  "exec (reschedule clock0 ''S1'' (move_to S2 None)) [False, False, False, False, True]
     [held ''patA'' (Some ''cough'') S1, S2] =
     ((500, ErrorBody ''Failed to reschedule appointment''),
      [S1\<lparr>updatedAt := ''2025-06-10T08:00:00.000Z''\<rparr>, S2])
   \<and> status S1 = Available \<and> patientId S1 = None
   \<and> status S2 = Available \<and> patientId S2 = None"
  by (simp add: example_defs reschedule_def is_past_def update_where_id_def set_booked_def
      set_free_def falsy_def or_else_def or_opt_def sql_eq_def fails_def)

text \<open>
  Without any error, too, a request whose call falls between the two updates reads the
  table with the source released and the target not yet claimed: the listing for
  11 June still shows \<open>S2\<close> as available.
\<close>

lemma reschedule_seen_half_done:
  "interleave [False, False, False, False, True, False]
     (reschedule clock0 ''S1'' (move_to S2 None))
     (list_available clock0 (Some ''D1'') (Some ''2025-06-11''))
     [held ''patA'' (Some ''cough'') S1, S2]
   = (Done (200, RescheduledBody ''Appointment rescheduled successfully'' ''S2''),
      Done (200, RowsBody [to_row S2]),
      [S1\<lparr>updatedAt := ''2025-06-10T08:00:00.000Z''\<rparr>,
       S2\<lparr>patientId := Some ''patA'', status := Booked, appt_notes := Some ''cough'',
          updatedAt := ''2025-06-10T08:00:00.001Z''\<rparr>])"
  by (simp add: example_defs reschedule_def list_available_def available_query_def to_row_def
      is_past_def update_where_id_def set_booked_def set_free_def falsy_def or_else_def
      or_opt_def sql_eq_def)

text \<open>
  Claim C2, amended. The two mutations are two separate updates, the release first and
  the claim second. Whichever of the earlier database calls fail, as long as the
  claiming update (the fifth call) does not, the request ends in one of two ways:
  answered 200 with both updates applied, the release of a booked row with the
  requested id and then the claim of a row that was available; or answered otherwise
  with the table as it was.
\<close>

theorem reschedule_both_or_neither:
  assumes "\<not> fails (drop 4 fs)" and "exec (reschedule e i req) fs s = (r, s')"
  shows "(fst r = 200
          \<and> (\<exists>a\<in>set s. \<exists>n\<in>set s. appt_id a = i \<and> status a = Booked \<and> status n = Available
               \<and> s' = update_where_id (appt_id n)
                        (set_booked (patientId a) (or_opt (upd_notes req) (appt_notes a))
                           (nowISO e 1))
                        (update_where_id i (set_free (nowISO e 0)) s)))
       \<or> (fst r \<noteq> 200 \<and> s' = s)"
proof (cases "fst r = 200")
  case True
  then obtain b where "exec (reschedule e i req) fs s = ((200, b), s')"
    using assms(2) by (cases r) auto
  from reschedule_done [OF this] obtain a n where
    a: "find (\<lambda>r. appt_id r = i) s = Some a" "status a = Booked"
    and n: "find (\<lambda>r. doctorId r = or_else (upd_doctorId req) (doctorId a)
                     \<and> date r = or_else (upd_date req) (date a)
                     \<and> time r = or_else (upd_time req) (time a)
                     \<and> status r = Available) s = Some n"
    and s': "s' = update_where_id (appt_id n)
                  (set_booked (patientId a) (or_opt (upd_notes req) (appt_notes a)) (nowISO e 1))
                  (update_where_id i (set_free (nowISO e 0)) s)"
    by blast
  from find_SomeD [OF a(1)] find_SomeD [OF n] a(2) s' True show ?thesis by blast
next
  case False
  with reschedule_not_done [OF assms(2) _ assms(1)] show ?thesis by simp
qed

theorem reschedule_both_or_neither_witness:
  "\<not> fails (drop 4 [False, False, False, True])
   \<and> exec (reschedule clock0 ''S1'' (move_to S2 None)) [False, False, False, True]
       [held ''patA'' (Some ''cough'') S1, S2] =
       ((500, ErrorBody ''Failed to reschedule appointment''),
        [held ''patA'' (Some ''cough'') S1, S2])
   \<and> ((fst (500, ErrorBody ''Failed to reschedule appointment'') = (200 :: nat)
        \<and> (\<exists>a\<in>set [held ''patA'' (Some ''cough'') S1, S2].
             \<exists>n\<in>set [held ''patA'' (Some ''cough'') S1, S2].
               appt_id a = ''S1'' \<and> status a = Booked \<and> status n = Available
               \<and> [held ''patA'' (Some ''cough'') S1, S2] =
                   update_where_id (appt_id n)
                     (set_booked (patientId a)
                        (or_opt (upd_notes (move_to S2 None)) (appt_notes a)) (nowISO clock0 1))
                     (update_where_id ''S1'' (set_free (nowISO clock0 0))
                        [held ''patA'' (Some ''cough'') S1, S2])))
      \<or> (fst (500 :: nat, ErrorBody ''Failed to reschedule appointment'') \<noteq> 200
          \<and> [held ''patA'' (Some ''cough'') S1, S2] = [held ''patA'' (Some ''cough'') S1, S2]))"
proof -
  have f: "\<not> fails (drop 4 [False, False, False, True])" by (simp add: fails_def)
  have x: "exec (reschedule clock0 ''S1'' (move_to S2 None)) [False, False, False, True]
       [held ''patA'' (Some ''cough'') S1, S2] =
       ((500, ErrorBody ''Failed to reschedule appointment''),
        [held ''patA'' (Some ''cough'') S1, S2])"
    by (simp add: example_defs reschedule_def is_past_def update_where_id_def set_booked_def
        set_free_def falsy_def or_else_def or_opt_def sql_eq_def fails_def)
  from f x reschedule_both_or_neither [OF f x] show ?thesis by (intro conjI)
qed

section \<open>Completing\<close>

text \<open>
  Claim C4, evaluated on the code. \<open>completeAppointment\<close> on the booked slot \<open>S1\<close>
  reaches the rescheduling handler with no doctor, date or time in the body, which
  looks for an available row at the appointment's own doctor, date and time, finds
  none and answers 400 "New time slot is not available". The slot stays booked, and
  neither diagnosis nor prescription is stored.
\<close>

theorem complete_booked_stays_booked:
  "exec (completeAppointment ''completed'' clock0 ''S1'' (Some ''bronchitis'')
           (Some ''cough syrup'')) [] [held ''patA'' (Some ''cough'') S1, S2] =
     ((400, ErrorBody ''New time slot is not available''),
      [held ''patA'' (Some ''cough'') S1, S2])
   \<and> status (held ''patA'' (Some ''cough'') S1) = Booked"
  by (simp add: example_defs completeAppointment_def updateAppointment_def reschedule_def
      is_past_def falsy_def or_else_def fails_def)

text \<open>
  More generally the call never produces a completed row: every completed row of the
  table it leaves was in the table before.
\<close>

lemma complete_never_completes:
  assumes "r \<in> set (snd (exec (completeAppointment c e i dg pr) fs s))"
    and "status r = Completed"
  shows "r \<in> set s"
proof -
  let ?req = "\<lparr>upd_doctorId = None, upd_date = None, upd_time = None, upd_notes = None,
      upd_status = Some c, upd_diagnosis = dg, upd_prescription = pr\<rparr>"
  let ?s' = "snd (exec (reschedule e i ?req) fs s)"
  have r: "r \<in> set ?s'"
    using assms(1) by (simp add: completeAppointment_def updateAppointment_def)
  have free: "r \<in> set s" if "r \<in> set (update_where_id i (set_free t) s)" for t
    using in_update_where_id [OF that] assms(2) by (auto simp: set_free_def)
  have both: "r \<in> set s"
    if "r \<in> set (update_where_id j (set_booked p n t') (update_where_id i (set_free t) s))"
    for j p n t t'
  proof -
    from in_update_where_id [OF that] assms(2)
    have "r \<in> set (update_where_id i (set_free t) s)" by (auto simp: set_booked_def)
    then show ?thesis by (rule free)
  qed
  from reschedule_store [of e i ?req fs s] show ?thesis
  proof (elim disjE bexE exE conjE)
    assume "?s' = s"
    with r show ?thesis by simp
  next
    assume "?s' = update_where_id i (set_free (nowISO e 0)) s"
    with r free show ?thesis by simp
  next
    fix a j n
    assume "?s' = update_where_id j (set_booked (patientId a) n (nowISO e 1))
        (update_where_id i (set_free (nowISO e 0)) s)"
    with r both show ?thesis by simp
  qed
qed

section \<open>Patients and statuses\<close>

lemma booked_keeps_invariant:
  assumes "patients_consistent s"
  shows "patients_consistent (update_where_id i (set_booked (Some p) n t) s)"
  using assms by (auto simp: patients_consistent_def update_where_id_def set_booked_def)

lemma free_keeps_invariant:
  assumes "patients_consistent s"
  shows "patients_consistent (update_where_id i (set_free t) s)"
  using assms by (auto simp: patients_consistent_def update_where_id_def set_free_def)

lemma cancelled_keeps_invariant:
  assumes "patients_consistent s"
  shows "patients_consistent (update_where_id i (set_cancelled t) s)"
  using assms by (auto simp: patients_consistent_def update_where_id_def set_cancelled_def)

text \<open>
  Claim C3, as stated, fails: cancelling keeps the patient on the cancelled row, so
  after the next successful booking the table holds a slot that is not booked and has
  a \<open>patientId\<close>.
\<close>

theorem patient_on_cancelled_counterexample:
  "exec (cancel clock0 ''S1'') [] [held ''patA'' None S1, S2] =
     ((200, MessageBody ''Appointment cancelled successfully''),
      [set_cancelled ''2025-06-10T08:00:00.000Z'' (held ''patA'' None S1), S2])
   \<and> exec (book clock0 (booking ''patB'' S2 None)) []
       [set_cancelled ''2025-06-10T08:00:00.000Z'' (held ''patA'' None S1), S2] =
     ((201, BookedBody ''Appointment booked successfully''
              (Some (set_booked (Some ''patB'') None ''2025-06-10T08:00:00.000Z'' S2))),
      [set_cancelled ''2025-06-10T08:00:00.000Z'' (held ''patA'' None S1),
       set_booked (Some ''patB'') None ''2025-06-10T08:00:00.000Z'' S2])
   \<and> status (set_cancelled ''2025-06-10T08:00:00.000Z'' (held ''patA'' None S1)) = Cancelled
   \<and> patientId (set_cancelled ''2025-06-10T08:00:00.000Z'' (held ''patA'' None S1))
       = Some ''patA''"
  by (simp add: example_defs cancel_def book_def is_past_def update_where_id_def set_booked_def
      set_cancelled_def falsy_def or_null_def fails_def)

text \<open>
  Claim C3, amended. If in the table every booked slot has a \<open>patientId\<close> and no
  available slot has one, then the same holds after every book, reschedule and cancel,
  whatever the answer and whichever database calls fail: in particular right after
  every successful book or reschedule commit. A cancelled slot keeps the \<open>patientId\<close> it
  was booked with, so a \<open>patientId\<close> does not imply that the slot is booked.
\<close>

theorem patients_consistent_kept:
  assumes "patients_consistent s"
  shows "patients_consistent (snd (exec (book e req) fs s))
       \<and> patients_consistent (snd (exec (reschedule e i upd) fs s))
       \<and> patients_consistent (snd (exec (cancel e i) fs s))"
proof (intro conjI)
  show "patients_consistent (snd (exec (book e req) fs s))"
    using book_store [of e req fs s] assms booked_keeps_invariant by auto
  show "patients_consistent (snd (exec (cancel e i) fs s))"
    using cancel_store [of e i fs s] assms cancelled_keeps_invariant by auto
  have "patients_consistent (update_where_id j (set_booked (patientId a) n t)
      (update_where_id i (set_free t') s))"
    if "a \<in> set s" "status a = Booked" for a j n t t'
  proof -
    from that assms obtain p where "patientId a = Some p"
      by (auto simp: patients_consistent_def)
    then show ?thesis
      using booked_keeps_invariant [OF free_keeps_invariant [OF assms]] by simp
  qed
  then show "patients_consistent (snd (exec (reschedule e i upd) fs s))"
    using reschedule_store [of e i upd fs s] assms free_keeps_invariant by auto
qed

theorem patients_consistent_kept_witness:
  "patients_consistent [held ''patA'' None S1, S2]
   \<and> patients_consistent (snd (exec (book clock0 (booking ''patB'' S2 None)) []
        [held ''patA'' None S1, S2]))
   \<and> patients_consistent (snd (exec (reschedule clock0 ''S1'' (move_to S2 None)) []
        [held ''patA'' None S1, S2]))
   \<and> patients_consistent (snd (exec (cancel clock0 ''S1'') [] [held ''patA'' None S1, S2]))"
proof -
  have h: "patients_consistent [held ''patA'' None S1, S2]"
    by (simp add: patients_consistent_def example_defs)
  from h patients_consistent_kept [OF h] show ?thesis by blast
qed

section \<open>Cancelling\<close>

text \<open>
  Claim C8. On a table with its primary key and with no database call failing,
  \<open>cancel\<close> answers 404 "Appointment not found" (NotFound) when no row has the id,
  400 "Only booked appointments can be cancelled" (InvalidTransition) when the row is
  not booked, be it available, cancelled or completed, and 400 "Cannot cancel past
  appointments" (PastDate) when the booked row's date is before today, each time
  leaving the table as it was. Otherwise it answers 200 and the row becomes cancelled,
  with a new \<open>updatedAt\<close> and nothing else changed: the table has as many rows as
  before and exactly the available rows it had, so no available slot is created or
  restored.
\<close>

theorem cancel_contract:
  assumes "primary_key s"
  shows "((\<forall>r\<in>set s. appt_id r \<noteq> i) \<longrightarrow>
            exec (cancel e i) [] s = ((404, ErrorBody ''Appointment not found''), s))
       \<and> (\<forall>a\<in>set s. appt_id a = i \<and> status a \<noteq> Booked \<longrightarrow>
            exec (cancel e i) [] s =
              ((400, ErrorBody ''Only booked appointments can be cancelled''), s))
       \<and> (\<forall>a\<in>set s. appt_id a = i \<and> status a = Booked \<and> is_past e (date a) \<longrightarrow>
            exec (cancel e i) [] s = ((400, ErrorBody ''Cannot cancel past appointments''), s))
       \<and> (\<forall>a\<in>set s. appt_id a = i \<and> status a = Booked \<and> \<not> is_past e (date a) \<longrightarrow>
            exec (cancel e i) [] s =
              ((200, MessageBody ''Appointment cancelled successfully''),
               map (\<lambda>r. if r = a then a\<lparr>status := Cancelled, updatedAt := nowISO e 0\<rparr> else r) s)
            \<and> length (snd (exec (cancel e i) [] s)) = length s
            \<and> filter (\<lambda>r. status r = Available) (snd (exec (cancel e i) [] s))
                = filter (\<lambda>r. status r = Available) s)"
proof (intro conjI ballI impI)
  assume "\<forall>r\<in>set s. appt_id r \<noteq> i"
  then have "find (\<lambda>r. appt_id r = i) s = None" by (simp add: find_None_iff)
  then show "exec (cancel e i) [] s = ((404, ErrorBody ''Appointment not found''), s)"
    by (simp add: cancel_def fails_def)
next
  fix a assume a: "a \<in> set s" "appt_id a = i \<and> status a \<noteq> Booked"
  with assms have "find (\<lambda>r. appt_id r = i) s = Some a" using find_by_key by blast
  with a show "exec (cancel e i) [] s =
      ((400, ErrorBody ''Only booked appointments can be cancelled''), s)"
    by (simp add: cancel_def fails_def)
next
  fix a assume a: "a \<in> set s" "appt_id a = i \<and> status a = Booked \<and> is_past e (date a)"
  with assms have "find (\<lambda>r. appt_id r = i) s = Some a" using find_by_key by blast
  with a show "exec (cancel e i) [] s = ((400, ErrorBody ''Cannot cancel past appointments''), s)"
    by (simp add: cancel_def fails_def)
next
  fix a assume a: "a \<in> set s" "appt_id a = i \<and> status a = Booked \<and> \<not> is_past e (date a)"
  with assms have f: "find (\<lambda>r. appt_id r = i) s = Some a" using find_by_key by blast
  have u: "update_where_id i (set_cancelled (nowISO e 0)) s =
      map (\<lambda>r. if r = a then a\<lparr>status := Cancelled, updatedAt := nowISO e 0\<rparr> else r) s"
    using update_by_key [OF assms a(1), of "set_cancelled (nowISO e 0)"] a(2)
    by (simp add: set_cancelled_def)
  have x: "exec (cancel e i) [] s =
      ((200, MessageBody ''Appointment cancelled successfully''),
       update_where_id i (set_cancelled (nowISO e 0)) s)"
    using f a by (simp add: cancel_def fails_def)
  show "exec (cancel e i) [] s =
      ((200, MessageBody ''Appointment cancelled successfully''),
       map (\<lambda>r. if r = a then a\<lparr>status := Cancelled, updatedAt := nowISO e 0\<rparr> else r) s)"
    using x u by simp
  show "length (snd (exec (cancel e i) [] s)) = length s"
    using x by (simp add: length_update_where_id)
  have "\<forall>r\<in>set s. appt_id r = i \<longrightarrow> status r \<noteq> Available"
  proof (intro ballI impI)
    fix r assume "r \<in> set s" "appt_id r = i"
    with assms a have "r = a" using key_unique by blast
    with a show "status r \<noteq> Available" by simp
  qed
  then show "filter (\<lambda>r. status r = Available) (snd (exec (cancel e i) [] s))
      = filter (\<lambda>r. status r = Available) s"
    using x by (simp add: available_after_cancel)
qed

theorem cancel_contract_witness:
  "exec (cancel clock0 ''S9'') [] [S1] = ((404, ErrorBody ''Appointment not found''), [S1])
   \<and> exec (cancel clock0 ''S1'') [] [S1] =
       ((400, ErrorBody ''Only booked appointments can be cancelled''), [S1])
   \<and> exec (cancel clock0 ''S0'') [] [held ''patA'' None S0] =
       ((400, ErrorBody ''Cannot cancel past appointments''), [held ''patA'' None S0])
   \<and> exec (cancel clock0 ''S1'') [] [held ''patA'' None S1, S2] =
       ((200, MessageBody ''Appointment cancelled successfully''),
        [(held ''patA'' None S1)\<lparr>status := Cancelled, updatedAt := ''2025-06-10T08:00:00.000Z''\<rparr>,
         S2])"
  using cancel_contract [of "[S1]" "''S9''" clock0]
    cancel_contract [of "[S1]" "''S1''" clock0]
    cancel_contract [of "[held ''patA'' None S0]" "''S0''" clock0]
    cancel_contract [of "[held ''patA'' None S1, S2]" "''S1''" clock0]
  by (simp add: example_defs primary_key_def is_past_def)

section \<open>Listing the available slots\<close>

text \<open>
  Claim C10. For a date earlier than today the listing answers 400 "Cannot view
  slots for past dates", whatever the table holds and before any database call, and
  the table stays as it was.
\<close>

theorem list_available_past:
  assumes "doctorId' \<noteq> []" and "date' \<noteq> []"
    and "parseDate e date' = Some t" and "t < today e"
  shows "exec (list_available e (Some doctorId') (Some date')) fs s =
           ((400, ErrorBody ''Cannot view slots for past dates''), s)"
  using assms by (simp add: list_available_def is_past_def)

theorem list_available_past_witness:
  "exec (list_available clock0 (Some ''D2'') (Some ''2025-06-09'')) [] [S0, S1, S2, S3] =
     ((400, ErrorBody ''Cannot view slots for past dates''), [S0, S1, S2, S3])"
  using list_available_past [of "''D2''" "''2025-06-09''" clock0 1749427200000 "[]"
      "[S0, S1, S2, S3]"]
  by (simp add: clock0_def)

text \<open>
  Claim C9, as stated, fails for a date before today: the available slot \<open>S0\<close> of
  doctor D1 on 9 June is what the query selects, and the handler answers 400 instead
  of listing it.
\<close>

theorem list_available_counterexample:
  "available_query ''D1'' ''2025-06-09'' [S0, S1] = [to_row S0]
   \<and> exec (list_available clock0 (Some ''D1'') (Some ''2025-06-09'')) [] [S0, S1] =
       ((400, ErrorBody ''Cannot view slots for past dates''), [S0, S1])"
  by (simp add: example_defs available_query_def list_available_def is_past_def)

text \<open>
  Claim C9, amended. For every doctor and every date that is not earlier than today,
  when the query does not fail, the listing answers 200 with exactly the rows of that
  doctor on that date whose status is available (as a multiset: none left out, none
  added, each reduced to its five columns), ordered by time ascending, and the
  table stays as it was.
\<close>

theorem list_available_exact:
  assumes "doctorId' \<noteq> []" and "date' \<noteq> []" and "\<not> is_past e date'" and "\<not> fails fs"
  shows "exec (list_available e (Some doctorId') (Some date')) fs s =
           ((200, RowsBody (available_query doctorId' date' s)), s)
       \<and> mset (available_query doctorId' date' s) =
           mset (map to_row (filter (\<lambda>r. doctorId r = doctorId' \<and> date r = date'
                                          \<and> status r = Available) s))
       \<and> sorted (map row_time (available_query doctorId' date' s))"
proof -
  have t: "row_time \<circ> to_row = time" by (auto simp: to_row_def)
  have "sorted (map row_time (available_query doctorId' date' s))"
    by (simp add: available_query_def t)
  moreover have "mset (available_query doctorId' date' s) =
      mset (map to_row (filter (\<lambda>r. doctorId r = doctorId' \<and> date r = date'
                                     \<and> status r = Available) s))"
    by (simp add: available_query_def)
  ultimately show ?thesis using assms by (simp add: list_available_def)
qed

theorem list_available_exact_witness:
  "exec (list_available clock0 (Some ''D1'') (Some ''2025-06-10'')) [] [S1, S3, S2, S4] =
     ((200, RowsBody [to_row S4, to_row S1]), [S1, S3, S2, S4])
   \<and> sorted (map row_time [to_row S4, to_row S1])"
  using list_available_exact [of "''D1''" "''2025-06-10''" clock0 "[]" "[S1, S3, S2, S4]"]
  by (simp add: example_defs is_past_def fails_def available_query_def)

end
